theory Spec2Isabelle
  imports Main "HOL-Library.Sublist"
begin

section \<open>Python values, exceptions and observable events\<close>

text \<open>
  The script \<^verbatim>\<open>notify_on_failure.py\<close> is sequential glue around a few library calls.
  The model keeps the script's own control flow and takes the outcome of every library
  call (subprocess, \<^verbatim>\<open>re\<close>, \<^verbatim>\<open>json\<close>, the Slack client) from a record of functions, the
  \<open>world\<close>. A call either returns a value (\<open>Inr\<close>) or raises (\<open>Inl\<close>).

  A Python \<^verbatim>\<open>str\<close> is modelled by its UTF-8 encoding, a \<open>string\<close> of bytes: an ASCII
  character is one byte, any other code point is two to four bytes.
\<close>

datatype py_exc =
    SlackApiError string
  | AssertionError
  | UnboundLocalError
  | AttributeError
  | PyException string

text \<open>
  \<open>SlackApiError err\<close> carries \<^verbatim>\<open>e.response["error"]\<close>. \<open>PyException cls\<close> is any other
  subclass of \<^verbatim>\<open>Exception\<close> a library call raises (\<^verbatim>\<open>re.error\<close>, \<^verbatim>\<open>JSONDecodeError\<close>,
  \<^verbatim>\<open>FileNotFoundError\<close>, \<^verbatim>\<open>URLError\<close>, ...), named by its class.
\<close>

datatype json =
    JNull
  | JBool bool
  | JNum int
  | JStr string
  | JArr "json list"
  | JObj "(string \<times> json) list"

text \<open>Python truthiness of a value that \<^verbatim>\<open>json.loads\<close> produced.\<close>

fun truthy :: "json \<Rightarrow> bool" where
  "truthy JNull = False"
| "truthy (JBool b) = b"
| "truthy (JNum n) = (n \<noteq> 0)"
| "truthy (JStr s) = (s \<noteq> [])"
| "truthy (JArr xs) = (xs \<noteq> [])"
| "truthy (JObj kvs) = (kvs \<noteq> [])"

text \<open>\<^verbatim>\<open>v.get(key, default)\<close>: only a dict has the method.\<close>

fun dict_get :: "json \<Rightarrow> string \<Rightarrow> json \<Rightarrow> py_exc + json" where
  "dict_get (JObj kvs) key dflt = Inr (case map_of kvs key of None \<Rightarrow> dflt | Some v \<Rightarrow> v)"
| "dict_get _ key dflt = Inl AttributeError"

datatype text_obj = PlainText string bool | Mrkdwn string

datatype block = Header text_obj | SectionFields "text_obj list" | SectionText text_obj

text \<open>One constructor for each \<^verbatim>\<open>print\<close> statement of the script.\<close>

datatype message =
    TokenNotSet
  | BranchSkipped string
  | AuthorEmail string
  | NoAuthorEmail
  | LookupFailed
  | OpenError
  | MappingParseError
  | DmSent
  | DmFailed
  | NoUserId
  | PostedFallback
  | PostFallbackFailed
  | FallbackNotSet

datatype event =
    Subprocess "string list"
  | UsersLookupByEmail string
  | ConversationsOpen json
  | ChatPostMessage string string "block list"
  | Stdout message
  | Stderr message

fun is_external :: "event \<Rightarrow> bool" where
  "is_external (Stdout m) = False"
| "is_external (Stderr m) = False"
| "is_external _ = True"

fun is_post :: "event \<Rightarrow> bool" where
  "is_post (ChatPostMessage c t b) = True"
| "is_post _ = False"

record world =
  check_output :: "string list \<Rightarrow> py_exc + string"
  subprocess_run :: "string list \<Rightarrow> py_exc + unit"
  re_search :: "string \<Rightarrow> string \<Rightarrow> py_exc + bool"
  json_loads :: "string \<Rightarrow> py_exc + json"
  users_lookupByEmail :: "string \<Rightarrow> py_exc + string"
  conversations_open :: "json \<Rightarrow> py_exc + string"
  chat_postMessage :: "string \<Rightarrow> string \<Rightarrow> block list \<Rightarrow> py_exc + unit"

text \<open>
  \<open>check_output argv\<close> is \<^verbatim>\<open>subprocess.check_output(argv, ...).decode()\<close>;
  \<open>re_search pat s\<close> tells whether \<^verbatim>\<open>re.search(pat, s)\<close> found a match;
  \<open>users_lookupByEmail\<close> returns \<^verbatim>\<open>response["user"]["id"]\<close> and \<open>conversations_open\<close>
  returns \<^verbatim>\<open>response["channel"]["id"]\<close>. No run makes the same call twice, so a function
  of the arguments gives every call its own outcome.
\<close>

type_synonym environ = "string \<rightharpoonup> string"

type_synonym 'a run = "event list \<times> (py_exc + 'a)"

definition ret :: "'a \<Rightarrow> 'a run" where
  "ret x = ([], Inr x)"

definition bind :: "'a run \<Rightarrow> ('a \<Rightarrow> 'b run) \<Rightarrow> 'b run" where
  "bind m f =
     (case m of
        (es, Inl e) \<Rightarrow> (es, Inl e)
      | (es, Inr x) \<Rightarrow> (case f x of (es', r) \<Rightarrow> (es @ es', r)))"

section \<open>The helper functions of the script\<close>

definition getenv :: "environ \<Rightarrow> string \<Rightarrow> string \<Rightarrow> string" where
  "getenv env name dflt = (case env name of None \<Rightarrow> dflt | Some v \<Rightarrow> v)"

text \<open>
  The characters \<^verbatim>\<open>str.strip()\<close> removes, each as its UTF-8 encoding: U+0009 to U+000D,
  U+001C to U+0020, U+0085, U+00A0, U+1680, U+2000 to U+200A, U+2028, U+2029, U+202F,
  U+205F and U+3000.
\<close>

definition py_whitespace :: "string list" where
  "py_whitespace =
     [[CHR 0x09], [CHR 0x0A], [CHR 0x0B], [CHR 0x0C], [CHR 0x0D],
      [CHR 0x1C], [CHR 0x1D], [CHR 0x1E], [CHR 0x1F], [CHR 0x20],
      [CHR 0xC2, CHR 0x85], [CHR 0xC2, CHR 0xA0],
      [CHR 0xE1, CHR 0x9A, CHR 0x80],
      [CHR 0xE2, CHR 0x80, CHR 0x80], [CHR 0xE2, CHR 0x80, CHR 0x81],
      [CHR 0xE2, CHR 0x80, CHR 0x82], [CHR 0xE2, CHR 0x80, CHR 0x83],
      [CHR 0xE2, CHR 0x80, CHR 0x84], [CHR 0xE2, CHR 0x80, CHR 0x85],
      [CHR 0xE2, CHR 0x80, CHR 0x86], [CHR 0xE2, CHR 0x80, CHR 0x87],
      [CHR 0xE2, CHR 0x80, CHR 0x88], [CHR 0xE2, CHR 0x80, CHR 0x89],
      [CHR 0xE2, CHR 0x80, CHR 0x8A],
      [CHR 0xE2, CHR 0x80, CHR 0xA8], [CHR 0xE2, CHR 0x80, CHR 0xA9],
      [CHR 0xE2, CHR 0x80, CHR 0xAF],
      [CHR 0xE2, CHR 0x81, CHR 0x9F],
      [CHR 0xE3, CHR 0x80, CHR 0x80]]"

text \<open>Drop from the front of \<open>s\<close>, as long as there is one, a member of \<open>ws\<close>.\<close>

function drop_ws :: "string list \<Rightarrow> string \<Rightarrow> string" where
  "drop_ws ws s =
     (case find (\<lambda>w. w \<noteq> [] \<and> prefix w s) ws of
        Some w \<Rightarrow> drop_ws ws (drop (length w) s)
      | None \<Rightarrow> s)"
  by pat_completeness auto
termination
proof (relation "measure (\<lambda>(ws, s). length s)")
  show "wf (measure (\<lambda>(ws, s). length s))"
    by simp
next
  fix ws :: "string list" and s w :: string
  assume "find (\<lambda>w. w \<noteq> [] \<and> prefix w s) ws = Some w"
  then have "w \<noteq> []" and "prefix w s"
    by (auto simp: find_Some_iff)
  then have "0 < length w" and "length w \<le> length s"
    by (simp_all add: prefix_length_le)
  then have "length s - length w < length s"
    by arith
  then show "((ws, drop (length w) s), (ws, s)) \<in> measure (\<lambda>(ws, s). length s)"
    by simp
qed

text \<open>
  \<^verbatim>\<open>s.strip()\<close>: whitespace goes from the front, then from the back. No encoding of
  \<open>py_whitespace\<close> starts with a continuation byte, so a match at the back of a
  well-formed string is a whole character.
\<close>

definition py_strip :: "string \<Rightarrow> string" where
  "py_strip s = rev (drop_ws (map rev py_whitespace) (rev (drop_ws py_whitespace s)))"

definition git_show_argv :: "string \<Rightarrow> string list" where
  "git_show_argv commit_sha = [''git'', ''show'', ''-s'', ''--format=%ae'', commit_sha]"

definition run_git_show_email :: "world \<Rightarrow> string \<Rightarrow> string run" where
  "run_git_show_email w commit_sha =
     ([Subprocess (git_show_argv commit_sha)],
      Inr (case check_output w (git_show_argv commit_sha) of
             Inr out \<Rightarrow> py_strip out
           | Inl e \<Rightarrow> []))"

text \<open>
  \<^verbatim>\<open>re.search(r"<([^>]+)>", s)\<close>, returning group 1: the leftmost \<^verbatim>\<open><\<close> that is followed by
  one or more characters other than \<^verbatim>\<open>>\<close> and then by \<^verbatim>\<open>>\<close>.
\<close>

fun search_angle :: "string \<Rightarrow> string option" where
  "search_angle [] = None"
| "search_angle (c # cs) =
     (if c = CHR ''<'' then
        (let body = takeWhile (\<lambda>x. x \<noteq> CHR ''>'') cs in
         if body \<noteq> [] \<and> length body < length cs then Some body else search_angle cs)
      else search_angle cs)"

definition parse_email_from_ci_commit_author :: "string \<Rightarrow> string" where
  "parse_email_from_ci_commit_author s =
     (if s = [] then []
      else case search_angle s of Some g \<Rightarrow> py_strip g | None \<Rightarrow> [])"

definition lookup_user_id_by_email :: "world \<Rightarrow> string \<Rightarrow> string run" where
  "lookup_user_id_by_email w email =
     (if email = [] then ([], Inr [])
      else case users_lookupByEmail w email of
             Inr uid \<Rightarrow> ([UsersLookupByEmail email], Inr uid)
           | Inl (SlackApiError err) \<Rightarrow>
               (if err = [] then ([UsersLookupByEmail email], Inl AssertionError)
                else ([UsersLookupByEmail email, Stderr LookupFailed], Inr []))
           | Inl e \<Rightarrow> ([UsersLookupByEmail email], Inl e))"

definition open_dm :: "world \<Rightarrow> json \<Rightarrow> string run" where
  "open_dm w user_id =
     (case conversations_open w user_id of
        Inr cid \<Rightarrow> ([ConversationsOpen user_id], Inr cid)
      | Inl (SlackApiError err) \<Rightarrow>
          (if err = [] then ([ConversationsOpen user_id, Stderr OpenError], Inl AssertionError)
           else ([ConversationsOpen user_id, Stderr OpenError], Inr []))
      | Inl e \<Rightarrow> ([ConversationsOpen user_id], Inl e))"

text \<open>
  \<open>post_message\<close> passes the literal \<^verbatim>\<open>"ci"\<close> as the channel, whatever its \<open>channel\<close>
  argument is. Its handler reads \<^verbatim>\<open>response\<close>, which is unbound when the call raised.
\<close>

definition post_message :: "world \<Rightarrow> string \<Rightarrow> string \<Rightarrow> block list \<Rightarrow> bool run" where
  "post_message w channel text blocks =
     (case chat_postMessage w ''ci'' text blocks of
        Inr u \<Rightarrow> ([ChatPostMessage ''ci'' text blocks], Inr True)
      | Inl (SlackApiError err) \<Rightarrow>
          ([ChatPostMessage ''ci'' text blocks],
           Inl (if err = [] then AssertionError else UnboundLocalError))
      | Inl e \<Rightarrow> ([ChatPostMessage ''ci'' text blocks], Inl e))"

text \<open>The body of the \<^verbatim>\<open>try\<close> in \<open>load_mapping_user_id\<close>.\<close>

definition mapping_lookup :: "world \<Rightarrow> string \<Rightarrow> string \<Rightarrow> py_exc + json" where
  "mapping_lookup w mapping_raw email =
     (case json_loads w mapping_raw of
        Inl e \<Rightarrow> Inl e
      | Inr mapping \<Rightarrow>
          (case dict_get mapping ''email_to_user_id'' (JObj []) of
             Inl e \<Rightarrow> Inl e
           | Inr tbl \<Rightarrow>
               (case dict_get tbl email (JStr []) of
                  Inl e \<Rightarrow> Inl e
                | Inr v \<Rightarrow> Inr (if truthy v then v else JStr []))))"

definition load_mapping_user_id :: "world \<Rightarrow> environ \<Rightarrow> string \<Rightarrow> json run" where
  "load_mapping_user_id w env email =
     (let mapping_raw = getenv env ''SLACK_MAPPINGS_JSON'' [] in
      if mapping_raw = [] \<or> email = [] then ([], Inr (JStr []))
      else case mapping_lookup w mapping_raw email of
             Inr v \<Rightarrow> ([], Inr v)
           | Inl e \<Rightarrow> ([Stderr MappingParseError], Inr (JStr [])))"

section \<open>main, in the order of the source\<close>

definition main_author_email :: "world \<Rightarrow> environ \<Rightarrow> string run" where
  "main_author_email w env =
     bind (run_git_show_email w (getenv env ''CI_COMMIT_SHA'' [])) (\<lambda>a1.
       let a2 = (if a1 = [] then parse_email_from_ci_commit_author (getenv env ''CI_COMMIT_AUTHOR'' [])
                 else a1);
           a3 = (if a2 = [] then getenv env ''GITLAB_USER_EMAIL'' [] else a2)
       in ret a3)"

definition or_unknown :: "string \<Rightarrow> string" where
  "or_unknown s = (if s = [] then ''unknown'' else s)"

definition project_path :: "environ \<Rightarrow> string" where
  "project_path env =
     (let alt = getenv env ''CI_PROJECT_NAMESPACE'' [] @ ''/'' @ getenv env ''CI_PROJECT_NAME'' []
      in case env ''CI_PROJECT_PATH'' of
           None \<Rightarrow> alt
         | Some p \<Rightarrow> if p = [] then alt else p)"

definition arrow :: string where
  "arrow = [CHR 0xC3, CHR 0xA2, CHR 0xE2, CHR 0x80, CHR 0xA0, CHR 0xE2, CHR 0x80, CHR 0x99]"

definition main_summary :: "environ \<Rightarrow> string" where
  "main_summary env =
     (let pipeline_url = getenv env ''CI_PIPELINE_URL'' [];
          summary = ''A job failed in pipeline '' @ getenv env ''CI_PIPELINE_ID'' [] @ '' for ''
                    @ project_path env
      in if pipeline_url = [] then summary else summary @ '' '' @ arrow @ '' '' @ pipeline_url)"

text \<open>
  \<^verbatim>\<open>s[:n]\<close> counts code points: each is a byte followed by its continuation bytes
  (\<^verbatim>\<open>0x80\<close> to \<^verbatim>\<open>0xBF\<close>).
\<close>

definition utf8_cont :: "char \<Rightarrow> bool" where
  "utf8_cont c = (0x80 \<le> (of_char c :: nat) \<and> (of_char c :: nat) < 0xC0)"

fun py_take :: "nat \<Rightarrow> string \<Rightarrow> string" where
  "py_take 0 s = []"
| "py_take (Suc n) [] = []"
| "py_take (Suc n) (c # cs) =
     c # takeWhile utf8_cont cs @ py_take n (dropWhile utf8_cont cs)"

definition main_blocks :: "environ \<Rightarrow> string \<Rightarrow> string \<Rightarrow> block list" where
  "main_blocks env branch author_email =
     (let pipeline_url = getenv env ''CI_PIPELINE_URL'' [];
          short_sha = py_take 8 (or_unknown (getenv env ''CI_COMMIT_SHA'' []));
          blocks =
            [Header (PlainText ''Pipeline failed'' True),
             SectionFields
               [Mrkdwn (''*Project:* '' @ project_path env),
                Mrkdwn (''*Branch:* '' @ branch),
                Mrkdwn (''*Commit:* `'' @ short_sha @ ''`''),
                Mrkdwn (''*Author:* '' @ or_unknown author_email)],
             SectionText (Mrkdwn (''*Commit title:* '' @ getenv env ''CI_COMMIT_TITLE'' ''(no title)''))]
      in if pipeline_url = [] then blocks
         else blocks @ [SectionText (Mrkdwn (''<'' @ pipeline_url @ ''|Open the failed pipeline>''))])"

definition main_resolve_user :: "world \<Rightarrow> environ \<Rightarrow> string \<Rightarrow> json run" where
  "main_resolve_user w env author_email =
     (if author_email = [] then ret (JStr [])
      else bind (load_mapping_user_id w env author_email) (\<lambda>m.
             if truthy m then ret m
             else bind (lookup_user_id_by_email w author_email) (\<lambda>u. ret (JStr u))))"

text \<open>The direct-message attempt: \<open>Some rc\<close> when \<open>main\<close> returns \<open>rc\<close> there, \<open>None\<close> when it goes on.\<close>

definition main_try_dm :: "world \<Rightarrow> json \<Rightarrow> string \<Rightarrow> block list \<Rightarrow> int option run" where
  "main_try_dm w slack_user_id summary blocks =
     (if truthy slack_user_id then
        bind (open_dm w slack_user_id) (\<lambda>channel_id.
          if channel_id = [] then ([Stderr DmFailed], Inr None)
          else bind (post_message w channel_id summary blocks) (\<lambda>ok.
                 if ok then ([Stdout DmSent], Inr (Some 0))
                 else ([Stderr DmFailed], Inr None)))
      else ([Stderr NoUserId], Inr None))"

definition fallback_text :: "string \<Rightarrow> string \<Rightarrow> string" where
  "fallback_text summary author_email = summary @ '' (author: '' @ or_unknown author_email @ '')''"

definition main_fallback :: "world \<Rightarrow> environ \<Rightarrow> string \<Rightarrow> string \<Rightarrow> block list \<Rightarrow> int run" where
  "main_fallback w env author_email summary blocks =
     (let fallback = getenv env ''SLACK_FALLBACK_CHANNEL'' [] in
      if fallback = [] then ([Stderr FallbackNotSet], Inr 0)
      else bind (post_message w fallback (fallback_text summary author_email) blocks) (\<lambda>ok.
             ([Stderr (if ok then PostedFallback else PostFallbackFailed)], Inr 0)))"

text \<open>Everything \<open>main\<close> does once the branch filter has let the run through.\<close>

definition main_after_filter :: "world \<Rightarrow> environ \<Rightarrow> string \<Rightarrow> int run" where
  "main_after_filter w env branch =
     bind (main_author_email w env) (\<lambda>author_email.
     bind ([if author_email = [] then Stderr NoAuthorEmail else Stdout (AuthorEmail author_email)],
           Inr ()) (\<lambda>u.
     bind (main_resolve_user w env author_email) (\<lambda>slack_user_id.
     bind (main_try_dm w slack_user_id (main_summary env) (main_blocks env branch author_email)) (\<lambda>r.
       case r of
         Some rc \<Rightarrow> ret rc
       | None \<Rightarrow> main_fallback w env author_email (main_summary env)
                   (main_blocks env branch author_email)))))"

text \<open>
  \<^verbatim>\<open>re.search(branch_regex, branch)\<close>. The pattern \<^verbatim>\<open>.*\<close> matches the empty string, so a
  search with it succeeds at position 0 of every subject; the outcome for any other
  pattern (a match, no match, or \<^verbatim>\<open>re.error\<close> for a pattern that does not compile) is the
  world's.
\<close>

definition py_re_search :: "world \<Rightarrow> string \<Rightarrow> string \<Rightarrow> py_exc + bool" where
  "py_re_search w pat s = (if pat = ''.*'' then Inr True else re_search w pat s)"

definition main :: "world \<Rightarrow> environ \<Rightarrow> int run" where
  "main w env =
     (if getenv env ''SLACK_BOT_TOKEN'' [] = [] then ([Stderr TokenNotSet], Inr 0)
      else
        let branch = getenv env ''CI_COMMIT_REF_NAME'' ''unknown'';
            branch_regex = getenv env ''NOTIFY_BRANCH_REGEX'' ''.*''
        in case py_re_search w branch_regex branch of
             Inl e \<Rightarrow> ([], Inl e)
           | Inr matched \<Rightarrow>
               if matched then main_after_filter w env branch
               else ([Stdout (BranchSkipped branch)], Inr 0))"

section \<open>The script as a process\<close>

definition git_config_argv :: "string \<Rightarrow> string list" where
  "git_config_argv proj_dir = [''git'', ''config'', ''--global'', ''--add'', ''safe.directory'', proj_dir]"

definition git_fetch_argv :: "string list" where
  "git_fetch_argv = [''git'', ''fetch'', ''--unshallow'']"

text \<open>The \<^verbatim>\<open>try\<close> block under \<^verbatim>\<open>__main__\<close>: every exception is swallowed.\<close>

definition startup :: "world \<Rightarrow> environ \<Rightarrow> event list" where
  "startup w env =
     (case env ''CI_PROJECT_DIR'' of
        None \<Rightarrow> []
      | Some proj_dir \<Rightarrow>
          if proj_dir = [] then []
          else (case subprocess_run w (git_config_argv proj_dir) of
                  Inl e \<Rightarrow> [Subprocess (git_config_argv proj_dir)]
                | Inr u \<Rightarrow> [Subprocess (git_config_argv proj_dir), Subprocess git_fetch_argv]))"

text \<open>
  \<^verbatim>\<open>sys.exit(main())\<close>: the exit status is the value \<open>main\<close> returns, and 1 when an
  exception leaves \<open>main\<close>.
\<close>

definition exit_status :: "py_exc + int \<Rightarrow> int" where
  "exit_status r = (case r of Inr rc \<Rightarrow> rc | Inl e \<Rightarrow> 1)"

definition program :: "world \<Rightarrow> environ \<Rightarrow> event list \<times> int" where
  "program w env = (case main w env of (es, r) \<Rightarrow> (startup w env @ es, exit_status r))"

section \<open>Notions the properties are stated with\<close>

text \<open>
  A Slack call that returned, or raised \<^verbatim>\<open>SlackApiError\<close> with an error code: the outcomes
  the handlers of \<open>lookup_user_id_by_email\<close> and \<open>open_dm\<close> are written for.
\<close>

definition api_error_only :: "py_exc + 'a \<Rightarrow> bool" where
  "api_error_only r =
     (case r of
        Inr x \<Rightarrow> True
      | Inl (SlackApiError err) \<Rightarrow> err \<noteq> []
      | Inl e \<Rightarrow> False)"


text \<open>
  The static table has no entry for the address: the mapping variable is unset or empty,
  or it parses to an object without \<^verbatim>\<open>email_to_user_id\<close>, or to one whose table lacks
  the address.
\<close>

definition table_misses :: "world \<Rightarrow> environ \<Rightarrow> string \<Rightarrow> bool" where
  "table_misses w env email =
     (let mapping_raw = getenv env ''SLACK_MAPPINGS_JSON'' [] in
      mapping_raw = [] \<or>
      (case json_loads w mapping_raw of
         Inr (JObj kvs) \<Rightarrow>
           (case map_of kvs ''email_to_user_id'' of
              None \<Rightarrow> True
            | Some (JObj tbl) \<Rightarrow> map_of tbl email = None
            | Some v \<Rightarrow> False)
       | r \<Rightarrow> False))"

fun post_channels :: "event list \<Rightarrow> string list" where
  "post_channels [] = []"
| "post_channels (ChatPostMessage c t b # es) = c # post_channels es"
| "post_channels (e # es) = post_channels es"

section \<open>Concrete environments and worlds\<close>

definition mapping_example :: string where
  \<open>mapping_example = ''{"email_to_user_id":{"a@x.com":"U1"}}''\<close>

definition mapping_example_value :: json where
  "mapping_example_value = JObj [(''email_to_user_id'', JObj [(''a@x.com'', JStr ''U1'')])]"

text \<open>
  A world in which git is of no help, every pattern matches, only \<open>mapping_example\<close> parses,
  Slack knows no user, and posting works.
\<close>

definition base_world :: world where
  "base_world =
     \<lparr>check_output = (\<lambda>argv. Inl (PyException ''CalledProcessError'')),
      subprocess_run = (\<lambda>argv. Inr ()),
      re_search = (\<lambda>pat s. Inr True),
      json_loads = (\<lambda>s. if s = mapping_example then Inr mapping_example_value
                          else Inl (PyException ''JSONDecodeError'')),
      users_lookupByEmail = (\<lambda>email. Inl (SlackApiError ''users_not_found'')),
      conversations_open = (\<lambda>uid. Inl (SlackApiError ''user_not_found'')),
      chat_postMessage = (\<lambda>c t b. Inr ())\<rparr>"

text \<open>Slack knows the author and opens the conversation \<^verbatim>\<open>D42\<close>.\<close>

definition dm_world :: world where
  "dm_world =
     base_world\<lparr>users_lookupByEmail := (\<lambda>email. Inr ''U7''),
                conversations_open := (\<lambda>uid. Inr ''D42'')\<rparr>"

text \<open>As \<open>dm_world\<close>, but \<^verbatim>\<open>chat.postMessage\<close> answers with an API error.\<close>

definition post_error_world :: world where
  "post_error_world =
     dm_world\<lparr>chat_postMessage := (\<lambda>c t b. Inl (SlackApiError ''channel_not_found''))\<rparr>"


text \<open>No branch matches the pattern \<^verbatim>\<open>^main$\<close> but \<^verbatim>\<open>main\<close>.\<close>

definition filter_world :: world where
  "filter_world =
     base_world\<lparr>re_search := (\<lambda>pat s. Inr (if pat = ''^main$'' then s = ''main'' else True))\<rparr>"

text \<open>The lookup cannot reach Slack.\<close>

definition offline_world :: world where
  "offline_world = base_world\<lparr>users_lookupByEmail := (\<lambda>email. Inl (PyException ''URLError''))\<rparr>"

text \<open>\<^verbatim>\<open>git show\<close> prints the author's address followed by a newline.\<close>

definition git_world :: world where
  "git_world = base_world\<lparr>check_output := (\<lambda>argv. Inr (''dev@x.com'' @ [CHR 0x0A]))\<rparr>"

definition env_no_token :: environ where
  "env_no_token = map_of [(''CI_PROJECT_DIR'', ''/builds/app''), (''CI_COMMIT_SHA'', ''0123456789ab'')]"

definition env_fallback :: environ where
  "env_fallback =
     map_of [(''SLACK_BOT_TOKEN'', ''xoxb-1''), (''SLACK_FALLBACK_CHANNEL'', ''#ci-failures''),
             (''CI_PIPELINE_ID'', ''17''), (''CI_PROJECT_PATH'', ''grp/app'')]"

definition env_author :: environ where
  "env_author =
     map_of [(''SLACK_BOT_TOKEN'', ''xoxb-1''), (''CI_COMMIT_AUTHOR'', ''Jane Doe <jane@x.com>''),
             (''GITLAB_USER_EMAIL'', ''ci@x.com''), (''CI_PIPELINE_ID'', ''17''),
             (''CI_PROJECT_PATH'', ''grp/app'')]"

definition env_mapping :: environ where
  "env_mapping =
     map_of [(''SLACK_BOT_TOKEN'', ''xoxb-1''), (''SLACK_MAPPINGS_JSON'', mapping_example),
             (''GITLAB_USER_EMAIL'', ''a@x.com'')]"

definition env_bad_json :: environ where
  "env_bad_json =
     map_of [(''SLACK_BOT_TOKEN'', ''xoxb-1''), (''SLACK_MAPPINGS_JSON'', ''{oops''),
             (''GITLAB_USER_EMAIL'', ''a@x.com'')]"


definition env_filtered_dir :: environ where
  "env_filtered_dir =
     map_of [(''SLACK_BOT_TOKEN'', ''xoxb-1''), (''NOTIFY_BRANCH_REGEX'', ''^main$''),
             (''CI_COMMIT_REF_NAME'', ''feature/x''), (''CI_PROJECT_DIR'', ''/builds/app'')]"


definition env_filtered :: environ where
  "env_filtered =
     map_of [(''SLACK_BOT_TOKEN'', ''xoxb-1''), (''NOTIFY_BRANCH_REGEX'', ''^main$''),
             (''CI_COMMIT_REF_NAME'', ''feature/x'')]"

section \<open>Basic facts\<close>

lemma bind_Inr_pair: "bind (es, Inr x) f = (es @ fst (f x), snd (f x))"
  by (simp add: bind_def split: prod.splits)

section \<open>The author-string parser\<close>






section \<open>Stripping whitespace\<close>







section \<open>What the parser returns\<close>




section \<open>Author resolution\<close>

text \<open>
  C5: the author address is resolved in three tiers. \<open>run_git_show_email\<close> always returns
  some \<open>g\<close> (the empty string on any failure); the resolved address is \<open>g\<close> when \<open>g\<close> is
  not empty, else the address parsed from \<^verbatim>\<open>CI_COMMIT_AUTHOR\<close> when that is not empty, else
  the raw \<^verbatim>\<open>GITLAB_USER_EMAIL\<close>. A later tier decides only when every earlier one was empty.
\<close>

theorem author_email_precedence:
  "\<exists>g. run_git_show_email w (getenv env ''CI_COMMIT_SHA'' []) =
          ([Subprocess (git_show_argv (getenv env ''CI_COMMIT_SHA'' []))], Inr g)
       \<and> main_author_email w env =
          ([Subprocess (git_show_argv (getenv env ''CI_COMMIT_SHA'' []))],
           Inr (if g \<noteq> [] then g
                else if parse_email_from_ci_commit_author (getenv env ''CI_COMMIT_AUTHOR'' []) \<noteq> []
                     then parse_email_from_ci_commit_author (getenv env ''CI_COMMIT_AUTHOR'' [])
                     else getenv env ''GITLAB_USER_EMAIL'' []))"
  by (simp add: main_author_email_def run_git_show_email_def bind_def ret_def Let_def)

theorem author_email_precedence_witness:
  "snd (main_author_email git_world env_author) = Inr ''dev@x.com''
   \<and> snd (main_author_email base_world env_author) = Inr ''jane@x.com''
   \<and> snd (main_author_email base_world env_mapping) = Inr ''a@x.com''"
proof -
  have g1: "snd (run_git_show_email git_world (getenv env_author ''CI_COMMIT_SHA'' [])) = Inr ''dev@x.com''"
    by code_simp
  have g2: "snd (run_git_show_email base_world (getenv env_author ''CI_COMMIT_SHA'' [])) = Inr []"
    by code_simp
  have g3: "snd (run_git_show_email base_world (getenv env_mapping ''CI_COMMIT_SHA'' [])) = Inr []"
    by code_simp
  have p2: "parse_email_from_ci_commit_author (getenv env_author ''CI_COMMIT_AUTHOR'' []) = ''jane@x.com''"
    by code_simp
  have p3: "parse_email_from_ci_commit_author (getenv env_mapping ''CI_COMMIT_AUTHOR'' []) = []"
    by code_simp
  have u3: "getenv env_mapping ''GITLAB_USER_EMAIL'' [] = ''a@x.com''"
    by code_simp
  from author_email_precedence[of git_world env_author] g1
  have a: "snd (main_author_email git_world env_author) = Inr ''dev@x.com''"
    by auto
  from author_email_precedence[of base_world env_author] g2 p2
  have b: "snd (main_author_email base_world env_author) = Inr ''jane@x.com''"
    by auto
  from author_email_precedence[of base_world env_mapping] g3 p3 u3
  have c: "snd (main_author_email base_world env_mapping) = Inr ''a@x.com''"
    by auto
  from a b c show ?thesis by simp
qed

section \<open>Identity mapper\<close>

lemma load_mapping_hit:
  assumes raw: "getenv env ''SLACK_MAPPINGS_JSON'' [] = raw" "raw \<noteq> []" "email \<noteq> []"
    and js: "json_loads w raw = Inr (JObj kvs)"
    and tb: "map_of kvs ''email_to_user_id'' = Some (JObj tbl)"
    and hit: "map_of tbl email = Some v" "truthy v"
  shows "load_mapping_user_id w env email = ([], Inr v)"
  using assms by (simp add: load_mapping_user_id_def mapping_lookup_def)

lemma load_mapping_miss:
  assumes "table_misses w env email"
  shows "load_mapping_user_id w env email = ([], Inr (JStr []))"
proof (cases "getenv env ''SLACK_MAPPINGS_JSON'' [] = [] \<or> email = []")
  case True
  then show ?thesis by (auto simp: load_mapping_user_id_def)
next
  case False
  with assms show ?thesis
    by (auto simp: table_misses_def load_mapping_user_id_def mapping_lookup_def Let_def
        split: sum.splits json.splits option.splits)
qed

lemma lookup_first_event:
  "email \<noteq> [] \<Longrightarrow> \<exists>es. fst (lookup_user_id_by_email w email) = UsersLookupByEmail email # es"
  by (auto simp: lookup_user_id_by_email_def split: sum.splits py_exc.splits)

text \<open>
  C7: with the mapping \<^verbatim>\<open>{"email_to_user_id":{"a@x.com":"U1"}}\<close> and the address
  \<^verbatim>\<open>a@x.com\<close>, resolution returns \<^verbatim>\<open>U1\<close> and performs no call at all, so the remote
  lookup is not made; for an address the table has no entry for (or with an empty or
  absent table), resolution is the remote lookup, whose first event is the API call.
\<close>

theorem static_table_short_circuit:
  "(env ''SLACK_MAPPINGS_JSON'' = Some mapping_example
      \<and> json_loads w mapping_example = Inr mapping_example_value \<longrightarrow>
      main_resolve_user w env ''a@x.com'' = ([], Inr (JStr ''U1'')))
   \<and> (email \<noteq> [] \<and> table_misses w env email \<longrightarrow>
        main_resolve_user w env email = bind (lookup_user_id_by_email w email) (\<lambda>u. ret (JStr u))
        \<and> hd (fst (main_resolve_user w env email)) = UsersLookupByEmail email)"
proof (intro conjI impI)
  assume a: "env ''SLACK_MAPPINGS_JSON'' = Some mapping_example
      \<and> json_loads w mapping_example = Inr mapping_example_value"
  have ne: "mapping_example \<noteq> []" by (simp add: mapping_example_def)
  have "load_mapping_user_id w env ''a@x.com'' = ([], Inr (JStr ''U1''))"
    by (rule load_mapping_hit[where raw = mapping_example
          and kvs = "[(''email_to_user_id'', JObj [(''a@x.com'', JStr ''U1'')])]"
          and tbl = "[(''a@x.com'', JStr ''U1'')]"])
       (use a ne in \<open>simp_all add: getenv_def mapping_example_value_def\<close>)
  then show "main_resolve_user w env ''a@x.com'' = ([], Inr (JStr ''U1''))"
    by (simp add: main_resolve_user_def bind_def ret_def)
next
  assume b: "email \<noteq> [] \<and> table_misses w env email"
  then have m: "load_mapping_user_id w env email = ([], Inr (JStr []))"
    by (simp add: load_mapping_miss)
  with b show r: "main_resolve_user w env email = bind (lookup_user_id_by_email w email) (\<lambda>u. ret (JStr u))"
    by (simp add: main_resolve_user_def bind_def ret_def split: prod.splits sum.splits)
  from b obtain es where "fst (lookup_user_id_by_email w email) = UsersLookupByEmail email # es"
    using lookup_first_event by blast
  then show "hd (fst (main_resolve_user w env email)) = UsersLookupByEmail email"
    unfolding r by (auto simp: bind_def ret_def split: prod.splits sum.splits)
qed

theorem static_table_short_circuit_witness:
  "main_resolve_user base_world env_mapping ''a@x.com'' = ([], Inr (JStr ''U1''))
   \<and> table_misses base_world env_mapping ''b@x.com''
   \<and> hd (fst (main_resolve_user base_world env_mapping ''b@x.com'')) = UsersLookupByEmail ''b@x.com''"
proof -
  have h1: "env_mapping ''SLACK_MAPPINGS_JSON'' = Some mapping_example
      \<and> json_loads base_world mapping_example = Inr mapping_example_value"
    by (simp add: env_mapping_def base_world_def)
  have h2: "''b@x.com'' \<noteq> [] \<and> table_misses base_world env_mapping ''b@x.com''"
    by code_simp
  from static_table_short_circuit[of env_mapping base_world "''b@x.com''"] h1 h2
  show ?thesis by blast
qed

text \<open>
  C9, as stated: no error of the remote lookup leaves the identity mapper. The handler of
  \<open>lookup_user_id_by_email\<close> names \<^verbatim>\<open>SlackApiError\<close> only: when the call cannot reach
  Slack and raises \<^verbatim>\<open>URLError\<close>, the exception leaves the function.
\<close>

theorem lookup_error_escapes:
  "lookup_user_id_by_email offline_world ''a@x.com'' =
     ([UsersLookupByEmail ''a@x.com''], Inl (PyException ''URLError''))"
  by code_simp

lemma load_mapping_returns: "\<exists>es v. load_mapping_user_id w env email = (es, Inr v)"
  by (auto simp: load_mapping_user_id_def Let_def split: sum.splits)

lemma lookup_returns:
  "api_error_only (users_lookupByEmail w email) \<Longrightarrow>
   \<exists>es u. lookup_user_id_by_email w email = (es, Inr u)"
  by (auto simp: lookup_user_id_by_email_def api_error_only_def split: sum.splits py_exc.splits)

lemma resolve_returns:
  assumes "api_error_only (users_lookupByEmail w email)"
  shows "\<exists>es v. main_resolve_user w env email = (es, Inr v)"
proof -
  obtain es1 m where m: "load_mapping_user_id w env email = (es1, Inr m)"
    using load_mapping_returns by blast
  obtain es2 u where u: "lookup_user_id_by_email w email = (es2, Inr u)"
    using lookup_returns[OF assms] by blast
  show ?thesis
    by (simp add: main_resolve_user_def bind_def ret_def m u)
qed

text \<open>
  C9, amended: \<open>load_mapping_user_id\<close> never raises, and a mapping blob that does not parse
  is logged and gives the empty result; a \<^verbatim>\<open>SlackApiError\<close> of the remote lookup that
  carries an error code is logged and gives the empty string; and when the remote call
  returns or raises such a \<^verbatim>\<open>SlackApiError\<close>, the whole resolution returns without raising.
\<close>

theorem identity_mapper_errors:
  "(\<exists>es v. load_mapping_user_id w env email = (es, Inr v))
   \<and> (getenv env ''SLACK_MAPPINGS_JSON'' [] \<noteq> [] \<and> email \<noteq> []
        \<and> json_loads w (getenv env ''SLACK_MAPPINGS_JSON'' []) = Inl e \<longrightarrow>
        load_mapping_user_id w env email = ([Stderr MappingParseError], Inr (JStr [])))
   \<and> (email \<noteq> [] \<and> users_lookupByEmail w email = Inl (SlackApiError err) \<and> err \<noteq> [] \<longrightarrow>
        lookup_user_id_by_email w email = ([UsersLookupByEmail email, Stderr LookupFailed], Inr []))
   \<and> (api_error_only (users_lookupByEmail w email) \<longrightarrow>
        (\<exists>es v. main_resolve_user w env email = (es, Inr v)))"
proof (intro conjI impI)
  show "\<exists>es v. load_mapping_user_id w env email = (es, Inr v)"
    by (rule load_mapping_returns)
next
  assume "getenv env ''SLACK_MAPPINGS_JSON'' [] \<noteq> [] \<and> email \<noteq> []
        \<and> json_loads w (getenv env ''SLACK_MAPPINGS_JSON'' []) = Inl e"
  then show "load_mapping_user_id w env email = ([Stderr MappingParseError], Inr (JStr []))"
    by (simp add: load_mapping_user_id_def mapping_lookup_def)
next
  assume "email \<noteq> [] \<and> users_lookupByEmail w email = Inl (SlackApiError err) \<and> err \<noteq> []"
  then show "lookup_user_id_by_email w email = ([UsersLookupByEmail email, Stderr LookupFailed], Inr [])"
    by (simp add: lookup_user_id_by_email_def)
next
  assume "api_error_only (users_lookupByEmail w email)"
  then show "\<exists>es v. main_resolve_user w env email = (es, Inr v)"
    by (rule resolve_returns)
qed

theorem identity_mapper_errors_witness:
  "load_mapping_user_id base_world env_bad_json ''a@x.com'' = ([Stderr MappingParseError], Inr (JStr []))
   \<and> lookup_user_id_by_email base_world ''a@x.com'' =
       ([UsersLookupByEmail ''a@x.com'', Stderr LookupFailed], Inr [])
   \<and> (\<exists>es v. main_resolve_user base_world env_bad_json ''a@x.com'' = (es, Inr v))"
proof -
  have h1: "getenv env_bad_json ''SLACK_MAPPINGS_JSON'' [] \<noteq> [] \<and> ''a@x.com'' \<noteq> []
        \<and> json_loads base_world (getenv env_bad_json ''SLACK_MAPPINGS_JSON'' []) = Inl (PyException ''JSONDecodeError'')"
    by code_simp
  have h2: "''a@x.com'' \<noteq> [] \<and> users_lookupByEmail base_world ''a@x.com'' = Inl (SlackApiError ''users_not_found'')
        \<and> ''users_not_found'' \<noteq> []"
    by (simp add: base_world_def)
  have h3: "api_error_only (users_lookupByEmail base_world ''a@x.com'')"
    by (simp add: base_world_def api_error_only_def)
  from identity_mapper_errors[of base_world env_bad_json "''a@x.com''" "PyException ''JSONDecodeError''" "''users_not_found''"]
    h1 h2 h3
  show ?thesis by blast
qed

section \<open>Steps of main\<close>

lemma main_no_token:
  "getenv env ''SLACK_BOT_TOKEN'' [] = [] \<Longrightarrow> main w env = ([Stderr TokenNotSet], Inr 0)"
  by (simp add: main_def)

lemma main_filter:
  assumes "getenv env ''SLACK_BOT_TOKEN'' [] \<noteq> []"
    and "py_re_search w (getenv env ''NOTIFY_BRANCH_REGEX'' ''.*'')
           (getenv env ''CI_COMMIT_REF_NAME'' ''unknown'') = Inr m"
  shows "main w env =
           (if m then main_after_filter w env (getenv env ''CI_COMMIT_REF_NAME'' ''unknown'')
            else ([Stdout (BranchSkipped (getenv env ''CI_COMMIT_REF_NAME'' ''unknown''))], Inr 0))"
  using assms by (simp add: main_def Let_def)

lemma author_email_returns:
  "\<exists>a. main_author_email w env =
         ([Subprocess (git_show_argv (getenv env ''CI_COMMIT_SHA'' []))], Inr a)"
  by (simp add: main_author_email_def run_git_show_email_def bind_def ret_def Let_def)

lemma after_filter_first_event:
  "\<exists>es. fst (main_after_filter w env branch) =
          Subprocess (git_show_argv (getenv env ''CI_COMMIT_SHA'' [])) # es"
proof -
  obtain a where "main_author_email w env =
         ([Subprocess (git_show_argv (getenv env ''CI_COMMIT_SHA'' []))], Inr a)"
    using author_email_returns by blast
  then show ?thesis
    by (simp add: main_after_filter_def bind_Inr_pair)
qed

lemma startup_events:
  "set (startup w env) \<subseteq>
     {Subprocess (git_config_argv (getenv env ''CI_PROJECT_DIR'' [])), Subprocess git_fetch_argv}"
proof (cases "env ''CI_PROJECT_DIR''")
  case None
  then show ?thesis by (simp add: startup_def)
next
  case (Some d)
  then have g: "getenv env ''CI_PROJECT_DIR'' [] = d"
    by (simp add: getenv_def)
  show ?thesis
    unfolding g using Some
    by (cases "subprocess_run w (git_config_argv d)") (auto simp: startup_def)
qed

lemma startup_unset: "getenv env ''CI_PROJECT_DIR'' [] = [] \<Longrightarrow> startup w env = []"
  by (auto simp: startup_def getenv_def split: option.splits)

lemma startup_no_post: "filter is_post (startup w env) = []"
  by (auto simp: startup_def split: option.splits sum.splits)

lemma lookup_no_post: "filter is_post (fst (lookup_user_id_by_email w email)) = []"
  by (auto simp: lookup_user_id_by_email_def split: sum.splits py_exc.splits)

lemma load_mapping_no_post: "filter is_post (fst (load_mapping_user_id w env email)) = []"
  by (auto simp: load_mapping_user_id_def Let_def split: sum.splits)

lemma fst_bind_filter:
  "filter P (fst m) = [] \<Longrightarrow> (\<And>x. filter P (fst (f x)) = []) \<Longrightarrow> filter P (fst (bind m f)) = []"
proof (cases m)
  case (Pair es r)
  assume a: "filter P (fst m) = []" and b: "\<And>x. filter P (fst (f x)) = []"
  show ?thesis
  proof (cases r)
    case (Inl e)
    with Pair a show ?thesis by (simp add: bind_def)
  next
    case (Inr x)
    with Pair a b[of x] show ?thesis by (simp add: bind_Inr_pair)
  qed
qed

lemma resolve_no_post: "filter is_post (fst (main_resolve_user w env email)) = []"
  unfolding main_resolve_user_def
  by (auto intro!: fst_bind_filter simp: ret_def lookup_no_post load_mapping_no_post)

lemma open_dm_no_post: "filter is_post (fst (open_dm w uid)) = []"
  by (auto simp: open_dm_def split: sum.splits py_exc.splits)

lemma post_message_events:
  "fst (post_message w channel text blocks) = [ChatPostMessage ''ci'' text blocks]"
  by (simp add: post_message_def split: sum.splits py_exc.splits)

section \<open>A run without the bot token\<close>

text \<open>
  C3, as stated: without the bot token the program makes no external call at all. The
  block under \<^verbatim>\<open>__main__\<close> runs before \<open>main\<close> looks at the token: with \<^verbatim>\<open>CI_PROJECT_DIR\<close>
  set, the run below starts \<^verbatim>\<open>git config\<close> and \<^verbatim>\<open>git fetch --unshallow\<close> although the
  token is absent.
\<close>

theorem no_token_startup_calls:
  "getenv env_no_token ''SLACK_BOT_TOKEN'' [] = []
   \<and> filter is_external (fst (program base_world env_no_token)) =
       [Subprocess [''git'', ''config'', ''--global'', ''--add'', ''safe.directory'', ''/builds/app''],
        Subprocess [''git'', ''fetch'', ''--unshallow'']]"
  by code_simp

text \<open>
  C3, amended: when the bot token is unset or empty, \<open>main\<close> only logs and returns 0, so
  the process exits with status 0 and makes no chat-platform call and no \<^verbatim>\<open>git show\<close>; the
  only external calls of the run are the start-up commands \<^verbatim>\<open>git config\<close> and
  \<^verbatim>\<open>git fetch --unshallow\<close>, and with \<^verbatim>\<open>CI_PROJECT_DIR\<close> unset or empty there is none.
\<close>

theorem no_token_no_call_in_main:
  assumes "getenv env ''SLACK_BOT_TOKEN'' [] = []"
  shows "main w env = ([Stderr TokenNotSet], Inr 0)
     \<and> program w env = (startup w env @ [Stderr TokenNotSet], 0)
     \<and> set (startup w env) \<subseteq>
         {Subprocess (git_config_argv (getenv env ''CI_PROJECT_DIR'' [])), Subprocess git_fetch_argv}
     \<and> (getenv env ''CI_PROJECT_DIR'' [] = [] \<longrightarrow> filter is_external (fst (program w env)) = [])"
proof -
  have m: "main w env = ([Stderr TokenNotSet], Inr 0)"
    using assms by (rule main_no_token)
  then have p: "program w env = (startup w env @ [Stderr TokenNotSet], 0)"
    by (simp add: program_def exit_status_def)
  have "getenv env ''CI_PROJECT_DIR'' [] = [] \<longrightarrow> filter is_external (fst (program w env)) = []"
    by (simp add: p startup_unset)
  with m p startup_events show ?thesis by blast
qed

theorem no_token_no_call_in_main_witness:
  "program base_world Map.empty = ([Stderr TokenNotSet], 0)
   \<and> filter is_external (fst (program base_world Map.empty)) = []"
proof -
  have h: "getenv Map.empty ''SLACK_BOT_TOKEN'' [] = []"
    by (simp add: getenv_def)
  have d: "getenv Map.empty ''CI_PROJECT_DIR'' [] = []"
    by (simp add: getenv_def)
  have s: "startup base_world Map.empty = []"
    by (simp add: startup_def)
  from no_token_no_call_in_main[OF h, of base_world] d s show ?thesis
    by simp
qed

section \<open>The branch filter\<close>

text \<open>
  C4, as stated: on a mismatch the program contacts no external service. The block under
  \<^verbatim>\<open>__main__\<close> runs before \<open>main\<close> reaches the filter: with \<^verbatim>\<open>CI_PROJECT_DIR\<close> set, the run
  below starts \<^verbatim>\<open>git config\<close> and \<^verbatim>\<open>git fetch --unshallow\<close> although the branch
  \<^verbatim>\<open>feature/x\<close> does not match the pattern \<^verbatim>\<open>^main$\<close>.
\<close>

theorem branch_mismatch_startup_calls:
  "getenv env_filtered_dir ''SLACK_BOT_TOKEN'' [] \<noteq> []
   \<and> py_re_search filter_world (getenv env_filtered_dir ''NOTIFY_BRANCH_REGEX'' ''.*'')
        (getenv env_filtered_dir ''CI_COMMIT_REF_NAME'' ''unknown'') = Inr False
   \<and> filter is_external (fst (program filter_world env_filtered_dir)) =
       [Subprocess [''git'', ''config'', ''--global'', ''--add'', ''safe.directory'', ''/builds/app''],
        Subprocess [''git'', ''fetch'', ''--unshallow'']]"
  by code_simp

text \<open>
  C4, amended: with the token present and a pattern \<open>R\<close> that compiles, \<open>main\<close> goes on past
  the filter (its next action, the \<^verbatim>\<open>git show\<close> call, is made) if and only if
  \<^verbatim>\<open>re.search(R, B)\<close> finds a match in the branch name \<open>B\<close>; with \<^verbatim>\<open>NOTIFY_BRANCH_REGEX\<close>
  unset the default pattern lets every branch through. On a mismatch \<open>main\<close> prints one
  line and makes no external call, and the process exits with status 0; the only external
  calls of such a run are the start-up commands \<^verbatim>\<open>git config\<close> and
  \<^verbatim>\<open>git fetch --unshallow\<close>, and with \<^verbatim>\<open>CI_PROJECT_DIR\<close> unset or empty there is none.
\<close>

theorem branch_filter:
  assumes "getenv env ''SLACK_BOT_TOKEN'' [] \<noteq> []"
    and "py_re_search w (getenv env ''NOTIFY_BRANCH_REGEX'' ''.*'')
           (getenv env ''CI_COMMIT_REF_NAME'' ''unknown'') = Inr m"
  shows "(Subprocess (git_show_argv (getenv env ''CI_COMMIT_SHA'' [])) \<in> set (fst (main w env))) = m
     \<and> (m \<longrightarrow> main w env = main_after_filter w env (getenv env ''CI_COMMIT_REF_NAME'' ''unknown''))
     \<and> (\<not> m \<longrightarrow>
          main w env = ([Stdout (BranchSkipped (getenv env ''CI_COMMIT_REF_NAME'' ''unknown''))], Inr 0)
          \<and> filter is_external (fst (main w env)) = []
          \<and> snd (program w env) = 0
          \<and> fst (program w env) =
              startup w env @ [Stdout (BranchSkipped (getenv env ''CI_COMMIT_REF_NAME'' ''unknown''))]
          \<and> set (startup w env) \<subseteq>
              {Subprocess (git_config_argv (getenv env ''CI_PROJECT_DIR'' [])),
               Subprocess git_fetch_argv}
          \<and> (getenv env ''CI_PROJECT_DIR'' [] = [] \<longrightarrow>
                filter is_external (fst (program w env)) = []))
     \<and> (env ''NOTIFY_BRANCH_REGEX'' = None \<longrightarrow> m)"
proof (cases m)
  case True
  with main_filter[OF assms]
  have eq: "main w env = main_after_filter w env (getenv env ''CI_COMMIT_REF_NAME'' ''unknown'')"
    by simp
  obtain es where "fst (main_after_filter w env (getenv env ''CI_COMMIT_REF_NAME'' ''unknown'')) =
          Subprocess (git_show_argv (getenv env ''CI_COMMIT_SHA'' [])) # es"
    using after_filter_first_event by blast
  with eq True show ?thesis by simp
next
  case False
  let ?B = "getenv env ''CI_COMMIT_REF_NAME'' ''unknown''"
  from False main_filter[OF assms]
  have eq: "main w env = ([Stdout (BranchSkipped ?B)], Inr 0)"
    by simp
  have d: "env ''NOTIFY_BRANCH_REGEX'' \<noteq> None"
  proof
    assume "env ''NOTIFY_BRANCH_REGEX'' = None"
    then have "getenv env ''NOTIFY_BRANCH_REGEX'' ''.*'' = ''.*''"
      by (simp add: getenv_def)
    with assms(2) False show False
      by (simp add: py_re_search_def)
  qed
  have p: "program w env = (startup w env @ [Stdout (BranchSkipped ?B)], 0)"
    by (simp add: program_def eq exit_status_def)
  have q: "getenv env ''CI_PROJECT_DIR'' [] = [] \<longrightarrow> filter is_external (fst (program w env)) = []"
    by (simp add: p startup_unset)
  have x: "filter is_external (fst (main w env)) = []"
    by (simp add: eq)
  have y: "Subprocess (git_show_argv (getenv env ''CI_COMMIT_SHA'' [])) \<notin> set (fst (main w env))"
    by (simp add: eq)
  from False eq d p q x y startup_events[of w env] show ?thesis
    by simp
qed

theorem branch_filter_witness:
  "main filter_world env_filtered = ([Stdout (BranchSkipped ''feature/x'')], Inr 0)
   \<and> snd (program filter_world env_filtered) = 0
   \<and> filter is_external (fst (program filter_world env_filtered)) = []
   \<and> Subprocess (git_show_argv []) \<in> set (fst (main base_world env_author))"
proof -
  have t1: "getenv env_filtered ''SLACK_BOT_TOKEN'' [] \<noteq> []"
    by code_simp
  have r1: "py_re_search filter_world (getenv env_filtered ''NOTIFY_BRANCH_REGEX'' ''.*'')
           (getenv env_filtered ''CI_COMMIT_REF_NAME'' ''unknown'') = Inr False"
    by code_simp
  have b1: "getenv env_filtered ''CI_COMMIT_REF_NAME'' ''unknown'' = ''feature/x''"
    by code_simp
  have d1: "getenv env_filtered ''CI_PROJECT_DIR'' [] = []"
    by code_simp
  have t2: "getenv env_author ''SLACK_BOT_TOKEN'' [] \<noteq> []"
    by code_simp
  have r2: "py_re_search base_world (getenv env_author ''NOTIFY_BRANCH_REGEX'' ''.*'')
           (getenv env_author ''CI_COMMIT_REF_NAME'' ''unknown'') = Inr True"
    by code_simp
  have s2: "getenv env_author ''CI_COMMIT_SHA'' [] = []"
    by code_simp
  from branch_filter[OF t1 r1, unfolded b1 d1]
  have x: "main filter_world env_filtered = ([Stdout (BranchSkipped ''feature/x'')], Inr 0)
           \<and> snd (program filter_world env_filtered) = 0
           \<and> filter is_external (fst (program filter_world env_filtered)) = []"
    by blast
  from branch_filter[OF t2 r2]
  have "Subprocess (git_show_argv (getenv env_author ''CI_COMMIT_SHA'' []))
          \<in> set (fst (main base_world env_author))"
    by blast
  then have y: "Subprocess (git_show_argv []) \<in> set (fst (main base_world env_author))"
    unfolding s2 .
  from x y show ?thesis by blast
qed

section \<open>The destination of a post\<close>

text \<open>
  C2 says that every post is addressed to the destination the DM/fallback logic resolved.
  In the code every call of \<open>post_message\<close>, whatever its \<open>channel\<close> argument, is a
  \<^verbatim>\<open>chat.postMessage\<close> to the literal channel \<^verbatim>\<open>ci\<close>: with the fallback channel
  \<^verbatim>\<open>#ci-failures\<close> the fallback post goes to \<^verbatim>\<open>ci\<close>, and with the conversation \<^verbatim>\<open>D42\<close>
  opened the direct message goes to \<^verbatim>\<open>ci\<close> as well.
\<close>

theorem post_goes_to_literal_ci:
  "fst (post_message w channel text blocks) = [ChatPostMessage ''ci'' text blocks]
   \<and> getenv env_fallback ''SLACK_FALLBACK_CHANNEL'' [] = ''#ci-failures''
   \<and> post_channels (fst (program base_world env_fallback)) = [''ci'']
   \<and> snd (open_dm dm_world (JStr ''U7'')) = Inr ''D42''
   \<and> post_channels (fst (program dm_world env_author)) = [''ci'']"
proof -
  have a: "fst (post_message w channel text blocks) = [ChatPostMessage ''ci'' text blocks]"
    by (simp add: post_message_def split: sum.splits py_exc.splits)
  have b: "getenv env_fallback ''SLACK_FALLBACK_CHANNEL'' [] = ''#ci-failures''"
    by code_simp
  have c: "post_channels (fst (program base_world env_fallback)) = [''ci'']"
    by code_simp
  have d: "snd (open_dm dm_world (JStr ''U7'')) = Inr ''D42''"
    by code_simp
  have e: "post_channels (fst (program dm_world env_author)) = [''ci'']"
    by code_simp
  from a b c d e show ?thesis by simp
qed

section \<open>The fallback channel is not configured\<close>

lemma fallback_unset:
  "getenv env ''SLACK_FALLBACK_CHANNEL'' [] = [] \<Longrightarrow>
   main_fallback w env author_email summary blocks = ([Stderr FallbackNotSet], Inr 0)"
  by (simp add: main_fallback_def)

lemma try_dm_no_user:
  "\<not> truthy uid \<Longrightarrow> main_try_dm w uid summary blocks = ([Stderr NoUserId], Inr None)"
  by (simp add: main_try_dm_def)

lemma try_dm_open_failed:
  "truthy uid \<Longrightarrow> open_dm w uid = (es, Inr []) \<Longrightarrow>
   main_try_dm w uid summary blocks = (es @ [Stderr DmFailed], Inr None)"
  by (simp add: main_try_dm_def bind_Inr_pair)

text \<open>
  What C10 says holds when no user id is resolved or the conversation cannot be opened.
\<close>

lemma fallback_unset_no_post:
  assumes tok: "getenv env ''SLACK_BOT_TOKEN'' [] \<noteq> []"
    and re: "py_re_search w (getenv env ''NOTIFY_BRANCH_REGEX'' ''.*'')
               (getenv env ''CI_COMMIT_REF_NAME'' ''unknown'') = Inr True"
    and a: "main_author_email w env = (es1, Inr a)"
    and u: "main_resolve_user w env a = (es2, Inr uid)"
    and f: "\<not> truthy uid \<or> (truthy uid \<and> open_dm w uid = (es3, Inr []))"
    and fb: "getenv env ''SLACK_FALLBACK_CHANNEL'' [] = []"
  shows "filter is_post (fst (program w env)) = [] \<and> snd (program w env) = 0"
proof -
  let ?B = "getenv env ''CI_COMMIT_REF_NAME'' ''unknown''"
  let ?log = "[if a = [] then Stderr NoAuthorEmail else Stdout (AuthorEmail a)]"
  obtain esd where d: "main_try_dm w uid (main_summary env) (main_blocks env ?B a) = (esd, Inr None)"
    and nd: "filter is_post esd = []"
  proof (cases "truthy uid")
    case False
    then show ?thesis using that[of "[Stderr NoUserId]"] by (simp add: try_dm_no_user)
  next
    case True
    with f have o: "open_dm w uid = (es3, Inr [])" by simp
    have "filter is_post es3 = []"
      using open_dm_no_post[of w uid] o by simp
    then show ?thesis
      using that[of "es3 @ [Stderr DmFailed]"] try_dm_open_failed[OF True o] by simp
  qed
  have m: "main w env = (es1 @ ?log @ es2 @ esd @ [Stderr FallbackNotSet], Inr 0)"
    using main_filter[OF tok re]
    by (simp add: main_after_filter_def a u d bind_Inr_pair fallback_unset[OF fb])
  have e1: "filter is_post es1 = []"
    using author_email_returns[of w env] a by auto
  have e2: "filter is_post es2 = []"
    using resolve_no_post[of w env a] u by simp
  show ?thesis
    by (simp add: program_def m exit_status_def startup_no_post e1 e2 nd)
qed

text \<open>
  C10 says that when the direct-message path fails and no fallback channel is configured,
  no further post is made and the process exits with status 0. When the path fails because
  \<^verbatim>\<open>chat.postMessage\<close> answers with an API error, the handler of \<open>post_message\<close> reads the
  unbound \<^verbatim>\<open>response\<close>: \<^verbatim>\<open>UnboundLocalError\<close> leaves \<open>main\<close> and the exit status is 1.
\<close>

theorem dm_post_error_exit_status:
  "getenv env_author ''SLACK_FALLBACK_CHANNEL'' [] = []
   \<and> snd (open_dm post_error_world (JStr ''U7'')) = Inr ''D42''
   \<and> snd (post_message post_error_world ''D42'' (main_summary env_author)
            (main_blocks env_author ''unknown'' ''jane@x.com'')) = Inl UnboundLocalError
   \<and> length (filter is_post (fst (program post_error_world env_author))) = 1
   \<and> snd (program post_error_world env_author) = 1"
  by code_simp

section \<open>The exit status\<close>









section \<open>A direct message that succeeds\<close>

text \<open>
  C6: when the conversation is opened with a non-empty channel id and the post reports
  success, the events of the whole run hold exactly one post, the one of the
  direct-message step; the run ends with the line \<^verbatim>\<open>DM sent successfully.\<close> and status 0,
  so the fallback post is never made.
\<close>

theorem dm_success_single_post:
  assumes tok: "getenv env ''SLACK_BOT_TOKEN'' [] \<noteq> []"
    and re: "py_re_search w (getenv env ''NOTIFY_BRANCH_REGEX'' ''.*'')
               (getenv env ''CI_COMMIT_REF_NAME'' ''unknown'') = Inr True"
    and a: "main_author_email w env = (es1, Inr a)"
    and u: "main_resolve_user w env a = (es2, Inr uid)" "truthy uid"
    and o: "open_dm w uid = (es3, Inr cid)" "cid \<noteq> []"
    and p: "post_message w cid (main_summary env)
              (main_blocks env (getenv env ''CI_COMMIT_REF_NAME'' ''unknown'') a) = (es4, Inr True)"
  shows "filter is_post (fst (program w env)) = es4
     \<and> length es4 = 1
     \<and> last (fst (program w env)) = Stdout DmSent
     \<and> snd (program w env) = 0"
proof -
  let ?B = "getenv env ''CI_COMMIT_REF_NAME'' ''unknown''"
  let ?log = "[if a = [] then Stderr NoAuthorEmail else Stdout (AuthorEmail a)]"
  have d: "main_try_dm w uid (main_summary env) (main_blocks env ?B a)
             = (es3 @ es4 @ [Stdout DmSent], Inr (Some 0))"
    using u(2) o(2) by (simp add: main_try_dm_def o(1) p bind_Inr_pair)
  have m: "main w env = (es1 @ ?log @ es2 @ es3 @ es4 @ [Stdout DmSent], Inr 0)"
    using main_filter[OF tok re]
    by (simp add: main_after_filter_def a u(1) d bind_Inr_pair ret_def)
  have e1: "filter is_post es1 = []"
    using author_email_returns[of w env] a by auto
  have e2: "filter is_post es2 = []"
    using resolve_no_post[of w env a] u(1) by simp
  have e3: "filter is_post es3 = []"
    using open_dm_no_post[of w uid] o(1) by simp
  have e4: "es4 = [ChatPostMessage ''ci'' (main_summary env) (main_blocks env ?B a)]"
    using post_message_events[of w cid "main_summary env" "main_blocks env ?B a"] p by simp
  have pr: "program w env = (startup w env @ es1 @ ?log @ es2 @ es3 @ es4 @ [Stdout DmSent], 0)"
    by (simp add: program_def m exit_status_def)
  have "filter is_post (fst (program w env)) = es4"
    by (simp add: pr startup_no_post e1 e2 e3) (simp add: e4)
  moreover have "length es4 = 1" by (simp add: e4)
  moreover have "last (fst (program w env)) = Stdout DmSent" by (simp add: pr)
  moreover have "snd (program w env) = 0" by (simp add: pr)
  ultimately show ?thesis by blast
qed

theorem dm_success_single_post_witness:
  "filter is_post (fst (program dm_world env_author)) =
     [ChatPostMessage ''ci'' (main_summary env_author) (main_blocks env_author ''unknown'' ''jane@x.com'')]
   \<and> last (fst (program dm_world env_author)) = Stdout DmSent
   \<and> snd (program dm_world env_author) = 0"
proof -
  have tok: "getenv env_author ''SLACK_BOT_TOKEN'' [] \<noteq> []"
    by code_simp
  have re: "py_re_search dm_world (getenv env_author ''NOTIFY_BRANCH_REGEX'' ''.*'')
               (getenv env_author ''CI_COMMIT_REF_NAME'' ''unknown'') = Inr True"
    by code_simp
  have b: "getenv env_author ''CI_COMMIT_REF_NAME'' ''unknown'' = ''unknown''"
    by code_simp
  have a: "main_author_email dm_world env_author = ([Subprocess (git_show_argv [])], Inr ''jane@x.com'')"
    by code_simp
  have u: "main_resolve_user dm_world env_author ''jane@x.com'' =
             ([UsersLookupByEmail ''jane@x.com''], Inr (JStr ''U7''))"
    by code_simp
  have t: "truthy (JStr ''U7'')" by simp
  have o: "open_dm dm_world (JStr ''U7'') = ([ConversationsOpen (JStr ''U7'')], Inr ''D42'')"
    by code_simp
  have c: "''D42'' \<noteq> []" by simp
  have p: "post_message dm_world ''D42'' (main_summary env_author)
              (main_blocks env_author (getenv env_author ''CI_COMMIT_REF_NAME'' ''unknown'') ''jane@x.com'')
           = ([ChatPostMessage ''ci'' (main_summary env_author)
                 (main_blocks env_author ''unknown'' ''jane@x.com'')], Inr True)"
    unfolding b by (simp add: post_message_def dm_world_def base_world_def)
  from dm_success_single_post[OF tok re a u t o c p] show ?thesis
    by simp
qed

end
